theory Spec2Isabelle
  imports Complex_Main
begin

section \<open>Book purchase backend: orders, payment verification, notification\<close>

text \<open>
  A shallow embedding of \<^verbatim>\<open>src/app.py\<close>: the SQLite helpers
  (\<^verbatim>\<open>init_db\<close>, \<^verbatim>\<open>insert_order\<close>, \<^verbatim>\<open>update_order_payment\<close>, \<^verbatim>\<open>get_order\<close>)
  and the four request handlers (\<^verbatim>\<open>create_order\<close>, \<^verbatim>\<open>verify_payment\<close>,
  \<^verbatim>\<open>get_order_details\<close>, \<^verbatim>\<open>send_book\<close>).

  The database, the mails handed to the notifier and the calls made to the payment
  gateway are an explicit state that every handler takes and returns.  Everything the
  handlers read from outside the repository (environment variables, the clocks, the
  gateway's answer, the standard library's HMAC and integer parser, faults of the
  database file) is a field of the record \<open>world\<close>; the theorems hold for every world.
  Python strings are modelled as \<open>string\<close>; HTTP routing, CORS and the SMTP
  transport inside \<^verbatim>\<open>send_email\<close> are not modelled.
\<close>

subsection \<open>JSON values and the Python operations applied to them\<close>

text \<open>
  What \<^verbatim>\<open>request.get_json()\<close> returns.  A float is a real number (Python's json module
  also accepts NaN and Infinity, which this type leaves out); an object is the list of
  its members in document order.
\<close>

datatype json =
    JNull
  | JBool bool
  | JInt int
  | JFloat real
  | JStr string
  | JArr "json list"
  | JObj "(string \<times> json) list"

text \<open>The body of a request: not declared as JSON, declared but unparsable, or parsed.\<close>

datatype request = NotJson | Malformed | Body json

datatype py_exception =
    TypeError
  | AttributeError
  | ValueError
  | BadRequest
  | UnsupportedMediaType
  | GatewayError

text \<open>Sequencing of steps that may raise: the first exception wins.\<close>

definition try_bind :: "py_exception + 'a \<Rightarrow> ('a \<Rightarrow> py_exception + 'b) \<Rightarrow> py_exception + 'b" where
  "try_bind r f = (case r of Inl e \<Rightarrow> Inl e | Inr v \<Rightarrow> f v)"

text \<open>Python truthiness, as used by \<^verbatim>\<open>all([...])\<close> and \<^verbatim>\<open>not x\<close>.\<close>

fun truthy :: "json \<Rightarrow> bool" where
  "truthy JNull = False"
| "truthy (JBool b) = b"
| "truthy (JInt n) = (n \<noteq> 0)"
| "truthy (JFloat r) = (r \<noteq> 0)"
| "truthy (JStr s) = (s \<noteq> [])"
| "truthy (JArr xs) = (xs \<noteq> [])"
| "truthy (JObj kvs) = (kvs \<noteq> [])"

text \<open>
  A parsed object is a Python dict: of two members with the same key the later one
  wins.  \<^verbatim>\<open>d.get(k)\<close> is \<^verbatim>\<open>None\<close> for a missing key.
\<close>

definition dict_get :: "(string \<times> json) list \<Rightarrow> string \<Rightarrow> json" where
  "dict_get kvs k = (case map_of (rev kvs) k of None \<Rightarrow> JNull | Some v \<Rightarrow> v)"

definition py_get :: "json \<Rightarrow> string \<Rightarrow> py_exception + json" where
  "py_get d k = (case d of JObj kvs \<Rightarrow> Inr (dict_get kvs k) | _ \<Rightarrow> Inl AttributeError)"

fun starts_with :: "string \<Rightarrow> string \<Rightarrow> bool" where
  "starts_with s [] = True"
| "starts_with [] (c # cs) = False"
| "starts_with (x # xs) (c # cs) = (x = c \<and> starts_with xs cs)"

fun contains_str :: "string \<Rightarrow> string \<Rightarrow> bool" where
  "contains_str [] n = (n = [])"
| "contains_str (x # xs) n = (starts_with (x # xs) n \<or> contains_str xs n)"

text \<open>
  \<^verbatim>\<open>field in data\<close>: key membership for a dict, element membership for a list,
  substring for a string, \<^verbatim>\<open>TypeError\<close> for anything else.
\<close>

fun py_in :: "string \<Rightarrow> json \<Rightarrow> py_exception + bool" where
  "py_in k (JObj kvs) = Inr (k \<in> set (map fst kvs))"
| "py_in k (JArr xs) = Inr (JStr k \<in> set xs)"
| "py_in k (JStr s) = Inr (contains_str s k)"
| "py_in k JNull = Inl TypeError"
| "py_in k (JBool b) = Inl TypeError"
| "py_in k (JInt n) = Inl TypeError"
| "py_in k (JFloat r) = Inl TypeError"

text \<open>\<^verbatim>\<open>all(field in data for field in fields)\<close>, stopping at the first miss.\<close>

fun all_in :: "string list \<Rightarrow> json \<Rightarrow> py_exception + bool" where
  "all_in [] d = Inr True"
| "all_in (k # ks) d =
     (case py_in k d of
        Inl e \<Rightarrow> Inl e
      | Inr False \<Rightarrow> Inr False
      | Inr True \<Rightarrow> all_in ks d)"

text \<open>
  \<^verbatim>\<open>str.strip()\<close> removes the white space at both ends (the ASCII white space of
  Python: tab, line feed, vertical tab, form feed, carriage return, the four
  separators 28 to 31, and the blank).  Only a string has the method.  Strings are
  modelled as ASCII text: Python also strips the white space beyond ASCII (U+0085,
  U+00A0, U+2003 and others), which this function leaves in place.
\<close>

definition is_space :: "char \<Rightarrow> bool" where
  "is_space c = ((of_char c :: nat) \<in> {9, 10, 11, 12, 13, 28, 29, 30, 31, 32})"

definition py_strip :: "string \<Rightarrow> string" where
  "py_strip s = rev (dropWhile is_space (rev (dropWhile is_space s)))"

definition strip_value :: "json \<Rightarrow> py_exception + string" where
  "strip_value v = (case v of JStr s \<Rightarrow> Inr (py_strip s) | _ \<Rightarrow> Inl AttributeError)"

text \<open>\<^verbatim>\<open>str(n)\<close> for an integer: its decimal digits, with a minus sign when negative.\<close>

fun digits_of :: "nat \<Rightarrow> string" where
  "digits_of n =
     (if n < 10 then [char_of (48 + n)]
      else digits_of (n div 10) @ [char_of (48 + n mod 10)])"

definition py_str_int :: "int \<Rightarrow> string" where
  "py_str_int i = (if i < 0 then CHR ''-'' # digits_of (nat (- i)) else digits_of (nat i))"

subsection \<open>The world outside the repository\<close>

text \<open>The argument of \<^verbatim>\<open>razorpay_client.order.create\<close> (lines 401 to 410).\<close>

record gateway_order_data =
  gw_amount :: int
  gw_currency :: string
  gw_receipt :: string
  gw_notes_user_name :: string
  gw_notes_user_email :: string
  gw_notes_user_whatsapp :: string

text \<open>
  \<^item> \<open>razorpay_key_id\<close>, \<open>razorpay_key_secret\<close>, \<open>book_drive_link\<close>: the
    environment variables read with \<^verbatim>\<open>os.getenv\<close>, \<open>None\<close> when unset;
  \<^item> \<open>hmac_sha256_hex key msg\<close>: \<^verbatim>\<open>hmac.new(key, msg, hashlib.sha256).hexdigest()\<close>;
  \<^item> \<open>int_of_str\<close>: \<^verbatim>\<open>int(s)\<close> on a string, \<open>None\<close> when it raises \<^verbatim>\<open>ValueError\<close>;
  \<^item> \<open>sqlite_text\<close>: the text a value that is not a string compares as when it is bound to
    \<^verbatim>\<open>WHERE id = ?\<close>, \<open>None\<close> when sqlite3 refuses to bind it;
  \<^item> \<open>time_time\<close>: \<^verbatim>\<open>int(time.time())\<close>; \<open>datetime_now\<close>:
    \<^verbatim>\<open>int(datetime.now().timestamp())\<close>; \<open>current_timestamp\<close>: SQLite's
    \<^verbatim>\<open>CURRENT_TIMESTAMP\<close>;
  \<^item> \<open>gateway_create\<close>: the id in the gateway's answer, \<open>None\<close> when the client raises;
  \<^item> \<open>insert_fault\<close>, \<open>update_fault\<close>, \<open>get_fault\<close>: sqlite3 raises in the helper for a
    reason outside the tables (file locked, unreadable, full).
\<close>

record world =
  razorpay_key_id :: "string option"
  razorpay_key_secret :: "string option"
  book_drive_link :: "string option"
  hmac_sha256_hex :: "string \<Rightarrow> string \<Rightarrow> string"
  int_of_str :: "string \<Rightarrow> int option"
  sqlite_text :: "json \<Rightarrow> string option"
  time_time :: int
  datetime_now :: int
  current_timestamp :: int
  gateway_create :: "gateway_order_data \<Rightarrow> string option"
  insert_fault :: bool
  update_fault :: bool
  get_fault :: bool

text \<open>\<^verbatim>\<open>int(x)\<close> (line 347).\<close>

fun py_int :: "world \<Rightarrow> json \<Rightarrow> py_exception + int" where
  "py_int w (JInt n) = Inr n"
| "py_int w (JBool b) = Inr (if b then 1 else 0)"
| "py_int w (JFloat r) = Inr (if 0 \<le> r then \<lfloor>r\<rfloor> else \<lceil>r\<rceil>)"
| "py_int w (JStr s) = (case int_of_str w s of None \<Rightarrow> Inl ValueError | Some n \<Rightarrow> Inr n)"
| "py_int w JNull = Inl TypeError"
| "py_int w (JArr xs) = Inl TypeError"
| "py_int w (JObj kvs) = Inl TypeError"

text \<open>
  \<^verbatim>\<open>os.getenv('BOOK_DRIVE_LINK', default)\<close> (lines 370, 483, 585).
\<close>

definition default_drive_link :: string where
  "default_drive_link =
     ''https://drive.google.com/file/d/1lBH-fdCcyfp6_ZUpph6nviZklm5d3Mwt/view?usp=drive_link''"

definition drive_link_of :: "world \<Rightarrow> string" where
  "drive_link_of w = (case book_drive_link w of None \<Rightarrow> default_drive_link | Some l \<Rightarrow> l)"

subsection \<open>The database, the notifier and the gateway as state\<close>

text \<open>A row of table \<^verbatim>\<open>orders\<close> (lines 108 to 120); the primary key \<^verbatim>\<open>id\<close> is the map's key.\<close>

record order_row =
  user_name :: string
  user_email :: string
  user_whatsapp :: string
  amount :: int
  status :: string
  payment_id :: "string option"
  created_at :: int
  updated_at :: int

text \<open>A row of table \<^verbatim>\<open>payments\<close> (lines 123 to 135).\<close>

record payment_row =
  pay_id :: int
  pay_order_id :: string
  pay_razorpay_payment_id :: "string option"
  pay_razorpay_order_id :: "string option"
  pay_razorpay_signature :: "string option"
  pay_amount :: int
  pay_status :: string
  pay_created_at :: int

text \<open>
  The three messages the handlers build (lines 371 to 383, 486 to 495, 582 to 603),
  each with the values its f-string interpolates.
\<close>

datatype email_template =
    Free_access string string
  | Payment_confirmed string json int string
  | Book_is_here string json int string

datatype dispatch = Sync | Async

record email =
  recipient :: json
  template :: email_template
  drive_link :: string
  dispatch :: dispatch

record state =
  orders :: "string \<rightharpoonup> order_row"
  payments :: "payment_row list"
  emails :: "email list"
  gateway_calls :: "gateway_order_data list"

text \<open>
  \<^verbatim>\<open>init_db\<close> (lines 101 to 139) creates both tables, empty, when the database file
  does not exist, and leaves an existing file as it is.
\<close>

definition empty_tables :: state where
  "empty_tables = \<lparr>orders = Map.empty, payments = [], emails = [], gateway_calls = []\<rparr>"

definition init_db :: "state option \<Rightarrow> state" where
  "init_db file = (case file of None \<Rightarrow> empty_tables | Some s \<Rightarrow> s)"

text \<open>
  \<^verbatim>\<open>insert_order\<close> (lines 146 to 160).  The \<^verbatim>\<open>INSERT\<close> raises, and the helper returns
  \<^verbatim>\<open>False\<close>, when the primary key exists already or when the amount does not fit
  SQLite's 64-bit integer.
\<close>

definition insert_order ::
  "world \<Rightarrow> string \<Rightarrow> string \<Rightarrow> string \<Rightarrow> string \<Rightarrow> int \<Rightarrow> state \<Rightarrow> bool \<times> state" where
  "insert_order w order_id name email whatsapp amt s =
     (if insert_fault w \<or> order_id \<in> dom (orders s) \<or> amt < - (2 ^ 63) \<or> 2 ^ 63 \<le> amt
      then (False, s)
      else (True, s\<lparr>orders := (orders s)(order_id \<mapsto>
              \<lparr>user_name = name, user_email = email, user_whatsapp = whatsapp,
               amount = amt, status = ''created'', payment_id = None,
               created_at = current_timestamp w, updated_at = current_timestamp w\<rparr>)\<rparr>))"

text \<open>The text a value bound to \<^verbatim>\<open>WHERE id = ?\<close> is compared as.\<close>

definition sql_param :: "world \<Rightarrow> json \<Rightarrow> string option" where
  "sql_param w v = (case v of JStr t \<Rightarrow> Some t | _ \<Rightarrow> sqlite_text w v)"

text \<open>
  \<^verbatim>\<open>update_order_payment\<close> (lines 162 to 176).  An \<^verbatim>\<open>UPDATE\<close> whose \<^verbatim>\<open>WHERE\<close> matches
  no row changes nothing and does not raise: the helper returns \<^verbatim>\<open>True\<close>.
\<close>

definition update_order_payment ::
  "world \<Rightarrow> json \<Rightarrow> string \<Rightarrow> string \<Rightarrow> state \<Rightarrow> bool \<times> state" where
  "update_order_payment w order_id pid st s =
     (if update_fault w then (False, s)
      else case sql_param w order_id of
             None \<Rightarrow> (False, s)
           | Some k \<Rightarrow>
               (case orders s k of
                  None \<Rightarrow> (True, s)
                | Some r \<Rightarrow>
                    (True, s\<lparr>orders := (orders s)(k \<mapsto>
                       r\<lparr>payment_id := Some pid, status := st,
                         updated_at := current_timestamp w\<rparr>)\<rparr>)))"

text \<open>\<^verbatim>\<open>get_order\<close> (lines 178 to 190): the row with its id, or \<^verbatim>\<open>None\<close>.\<close>

definition get_order :: "world \<Rightarrow> json \<Rightarrow> state \<Rightarrow> (string \<times> order_row) option" where
  "get_order w order_id s =
     (if get_fault w then None
      else case sql_param w order_id of
             None \<Rightarrow> None
           | Some k \<Rightarrow> (case orders s k of None \<Rightarrow> None | Some r \<Rightarrow> Some (k, r)))"

text \<open>
  \<^verbatim>\<open>send_email\<close> (lines 194 to 276) and \<^verbatim>\<open>send_email_async\<close> (lines 278 to 287)
  hand one message to the notifier; neither raises, and no caller reads the result.
\<close>

definition send_email :: "json \<Rightarrow> email_template \<Rightarrow> string \<Rightarrow> state \<Rightarrow> state" where
  "send_email rcpt tpl link s =
     s\<lparr>emails := emails s @ [\<lparr>recipient = rcpt, template = tpl, drive_link = link, dispatch = Sync\<rparr>]\<rparr>"

definition send_email_async :: "json \<Rightarrow> email_template \<Rightarrow> string \<Rightarrow> state \<Rightarrow> state" where
  "send_email_async rcpt tpl link s =
     s\<lparr>emails := emails s @ [\<lparr>recipient = rcpt, template = tpl, drive_link = link, dispatch = Async\<rparr>]\<rparr>"

subsection \<open>Responses\<close>

text \<open>The projection returned by \<^verbatim>\<open>get_order_details\<close> (lines 533 to 540).\<close>

record order_view =
  view_id :: string
  view_user_name :: string
  view_user_email :: string
  view_amount :: int
  view_status :: string
  view_created_at :: int

text \<open>
  The JSON answers of the handlers.  The first five have \<^verbatim>\<open>'status': 'success'\<close> and HTTP
  code 200; \<open>Error_response code message\<close> is an error answer with a fixed message;
  \<open>Exception_error prefix e\<close> is the answer of an \<^verbatim>\<open>except Exception\<close> block, code 500,
  whose message is the prefix followed by the text of the exception.
\<close>

datatype response =
    Free_created string
  | Paid_created string "string option" int
  | Payment_verified string json
  | Order_details order_view
  | Book_sent json
  | Error_response nat string
  | Exception_error string py_exception

fun status_code :: "response \<Rightarrow> nat" where
  "status_code (Error_response c m) = c"
| "status_code (Exception_error p e) = 500"
| "status_code r = 200"

subsection \<open>\<^verbatim>\<open>create_order\<close> (lines 309 to 437)\<close>

definition required_fields :: "string list" where
  "required_fields = [''name'', ''email'', ''whatsapp'', ''amount'']"

text \<open>Lines 344 to 347: the three strings stripped, the amount converted, in this order.\<close>

definition parse_fields :: "world \<Rightarrow> json \<Rightarrow> py_exception + (string \<times> string \<times> string \<times> int)" where
  "parse_fields w data =
     try_bind (try_bind (py_get data ''name'') strip_value) (\<lambda>name.
     try_bind (try_bind (py_get data ''email'') strip_value) (\<lambda>email.
     try_bind (try_bind (py_get data ''whatsapp'') strip_value) (\<lambda>whatsapp.
     try_bind (try_bind (py_get data ''amount'') (py_int w)) (\<lambda>amt.
     Inr (name, email, whatsapp, amt)))))"

text \<open>Lines 364 to 398: the free order.\<close>

definition create_free :: "world \<Rightarrow> string \<Rightarrow> string \<Rightarrow> string \<Rightarrow> state \<Rightarrow> response \<times> state" where
  "create_free w name email whatsapp s =
     (let order_id = ''FREE-'' @ py_str_int (time_time w);
          (ok, s1) = insert_order w order_id name email whatsapp 0 s
      in if ok
         then (Free_created order_id,
               send_email (JStr email) (Free_access name order_id) (drive_link_of w) s1)
         else (Error_response 500 ''Failed to create order'', s1))"

text \<open>Lines 400 to 430: the paid order.  The gateway is called before anything is stored.\<close>

definition create_paid ::
  "world \<Rightarrow> string \<Rightarrow> string \<Rightarrow> string \<Rightarrow> int \<Rightarrow> state \<Rightarrow> response \<times> state" where
  "create_paid w name email whatsapp amt s =
     (let razorpay_order_data =
            \<lparr>gw_amount = amt * 100, gw_currency = ''INR'',
             gw_receipt = ''order-'' @ py_str_int (datetime_now w),
             gw_notes_user_name = name, gw_notes_user_email = email,
             gw_notes_user_whatsapp = whatsapp\<rparr>;
          s1 = s\<lparr>gateway_calls := gateway_calls s @ [razorpay_order_data]\<rparr>
      in case gateway_create w razorpay_order_data of
           None \<Rightarrow> (Exception_error ''Server error: '' GatewayError, s1)
         | Some order_id \<Rightarrow>
             (let (ok, s2) = insert_order w order_id name email whatsapp amt s1
              in if ok
                 then (Paid_created order_id (razorpay_key_id w) amt, s2)
                 else (Error_response 500 ''Failed to save order'', s2)))"

definition create_order :: "world \<Rightarrow> request \<Rightarrow> state \<Rightarrow> response \<times> state" where
  "create_order w req s =
     (case req of
        NotJson \<Rightarrow> (Error_response 415 ''Content-Type must be application/json'', s)
      | Malformed \<Rightarrow> (Exception_error ''Server error: '' BadRequest, s)
      | Body data \<Rightarrow>
          (case all_in required_fields data of
             Inl e \<Rightarrow> (Exception_error ''Server error: '' e, s)
           | Inr False \<Rightarrow>
               (Error_response 400 ''Missing required fields: name, email, whatsapp, amount'', s)
           | Inr True \<Rightarrow>
               (case parse_fields w data of
                  Inl e \<Rightarrow> (Exception_error ''Server error: '' e, s)
                | Inr (name, email, whatsapp, amt) \<Rightarrow>
                    if CHR ''@'' \<notin> set email \<or> CHR ''.'' \<notin> set email
                    then (Error_response 400 ''Invalid email address'', s)
                    else if amt < 0
                    then (Error_response 400 ''Amount cannot be negative'', s)
                    else if amt = 0
                    then create_free w name email whatsapp s
                    else create_paid w name email whatsapp amt s)))"

subsection \<open>\<^verbatim>\<open>verify_payment\<close> (lines 439 to 517)\<close>

text \<open>Lines 467 to 472: the digest the handler expects.\<close>

definition expected_signature :: "world \<Rightarrow> string \<Rightarrow> string \<Rightarrow> string \<Rightarrow> string" where
  "expected_signature w secret razorpay_order_id razorpay_payment_id =
     hmac_sha256_hex w secret (razorpay_order_id @ ''|'' @ razorpay_payment_id)"

text \<open>
  Lines 474 to 504: the signature matched.  The result of \<^verbatim>\<open>update_order_payment\<close> is
  dropped, the mail is sent only when the order is found, and the answer is a success
  in every case.
\<close>

definition payment_verified :: "world \<Rightarrow> json \<Rightarrow> string \<Rightarrow> state \<Rightarrow> response \<times> state" where
  "payment_verified w our_order_id razorpay_payment_id s =
     (let (ok, s1) = update_order_payment w our_order_id razorpay_payment_id ''paid'' s;
          s2 = (case get_order w our_order_id s1 of
                  None \<Rightarrow> s1
                | Some (k, order) \<Rightarrow>
                    send_email_async (JStr (user_email order))
                      (Payment_confirmed (user_name order) our_order_id (amount order)
                         razorpay_payment_id)
                      (drive_link_of w) s1)
      in (Payment_verified razorpay_payment_id our_order_id, s2))"

text \<open>
  A request that is not JSON makes \<^verbatim>\<open>request.get_json()\<close> raise (or, in older versions
  of the framework, return \<^verbatim>\<open>None\<close>, whose \<^verbatim>\<open>.get\<close> raises): a 500 either way.
  Concatenating anything but two strings raises \<^verbatim>\<open>TypeError\<close>; an unset secret has no
  \<^verbatim>\<open>.encode\<close>.
\<close>

definition verify_payment :: "world \<Rightarrow> request \<Rightarrow> state \<Rightarrow> response \<times> state" where
  "verify_payment w req s =
     (case req of
        NotJson \<Rightarrow> (Exception_error ''Verification error: '' UnsupportedMediaType, s)
      | Malformed \<Rightarrow> (Exception_error ''Verification error: '' BadRequest, s)
      | Body data \<Rightarrow>
          (case data of
             JObj kvs \<Rightarrow>
               (let razorpay_order_id = dict_get kvs ''razorpay_order_id'';
                    razorpay_payment_id = dict_get kvs ''razorpay_payment_id'';
                    razorpay_signature = dict_get kvs ''razorpay_signature'';
                    our_order_id = dict_get kvs ''order_id''
                in if \<not> (truthy razorpay_order_id \<and> truthy razorpay_payment_id \<and>
                         truthy razorpay_signature \<and> truthy our_order_id)
                   then (Error_response 400 ''Missing payment verification data'', s)
                   else case (razorpay_order_id, razorpay_payment_id) of
                          (JStr oid, JStr pid) \<Rightarrow>
                            (case razorpay_key_secret w of
                               None \<Rightarrow> (Exception_error ''Verification error: '' AttributeError, s)
                             | Some secret \<Rightarrow>
                                 if JStr (expected_signature w secret oid pid) = razorpay_signature
                                 then payment_verified w our_order_id pid s
                                 else (Error_response 400
                                         ''Payment verification failed - Invalid signature'', s))
                        | _ \<Rightarrow> (Exception_error ''Verification error: '' TypeError, s))
           | _ \<Rightarrow> (Exception_error ''Verification error: '' AttributeError, s)))"

subsection \<open>\<^verbatim>\<open>get_order_details\<close> (lines 519 to 548) and \<^verbatim>\<open>send_book\<close> (lines 550 to 618)\<close>

definition get_order_details :: "world \<Rightarrow> string \<Rightarrow> state \<Rightarrow> response \<times> state" where
  "get_order_details w order_id s =
     (case get_order w (JStr order_id) s of
        None \<Rightarrow> (Error_response 404 ''Order not found'', s)
      | Some (k, order) \<Rightarrow>
          (Order_details
             \<lparr>view_id = k, view_user_name = user_name order,
              view_user_email = user_email order, view_amount = amount order,
              view_status = status order, view_created_at = created_at order\<rparr>, s))"

definition send_book :: "world \<Rightarrow> request \<Rightarrow> state \<Rightarrow> response \<times> state" where
  "send_book w req s =
     (case req of
        NotJson \<Rightarrow> (Exception_error ''Error: '' UnsupportedMediaType, s)
      | Malformed \<Rightarrow> (Exception_error ''Error: '' BadRequest, s)
      | Body data \<Rightarrow>
          (case data of
             JObj kvs \<Rightarrow>
               (let order_id = dict_get kvs ''order_id'';
                    email = dict_get kvs ''email''
                in if \<not> truthy order_id \<or> \<not> truthy email
                   then (Error_response 400 ''Missing order_id or email'', s)
                   else case get_order w order_id s of
                          None \<Rightarrow> (Error_response 404 ''Order not found'', s)
                        | Some (k, order) \<Rightarrow>
                            (Book_sent order_id,
                             send_email email
                               (Book_is_here (user_name order) order_id (amount order)
                                  (status order))
                               (drive_link_of w) s))
           | _ \<Rightarrow> (Exception_error ''Error: '' AttributeError, s)))"

subsection \<open>The service as a state machine\<close>

datatype operation =
    CreateOrder request
  | VerifyPayment request
  | GetOrder string
  | SendBook request

fun handle :: "world \<Rightarrow> operation \<Rightarrow> state \<Rightarrow> response \<times> state" where
  "handle w (CreateOrder req) s = create_order w req s"
| "handle w (VerifyPayment req) s = verify_payment w req s"
| "handle w (GetOrder order_id) s = get_order_details w order_id s"
| "handle w (SendBook req) s = send_book w req s"

text \<open>
  The states the service can be in: it starts on a fresh database, and every request
  is handled in some world.
\<close>

inductive reachable :: "state \<Rightarrow> bool" where
  start: "reachable (init_db None)"
| request: "reachable s \<Longrightarrow> reachable (snd (handle w op s))"

subsection \<open>Worked examples\<close>

text \<open>
  A world and requests for the worked examples.  The digest function of the example
  world is a stand-in that pairs key and message; every theorem below is proved for an
  arbitrary digest function, so also for HMAC-SHA256.
\<close>

definition example_world :: world where
  "example_world =
     \<lparr>razorpay_key_id = Some ''rzp_test_key'',
      razorpay_key_secret = Some ''topsecret'',
      book_drive_link = None,
      hmac_sha256_hex = (\<lambda>key msg. ''mac('' @ key @ '','' @ msg @ '')''),
      int_of_str = (\<lambda>t. None),
      sqlite_text = (\<lambda>v. None),
      time_time = 1700000000,
      datetime_now = 1700000000,
      current_timestamp = 1700000000,
      gateway_create = (\<lambda>d. Some ''order_abc''),
      insert_fault = False,
      update_fault = False,
      get_fault = False\<rparr>"

definition example_create_request :: "string \<Rightarrow> int \<Rightarrow> request" where
  "example_create_request name amt =
     Body (JObj [(''name'', JStr name),
                 (''email'', JStr ''alice@x.com''),
                 (''whatsapp'', JStr ''+911234567890''),
                 (''amount'', JInt amt)])"

definition example_verify_request :: "string \<Rightarrow> string \<Rightarrow> request" where
  "example_verify_request pid sig =
     Body (JObj [(''razorpay_order_id'', JStr ''order_abc''),
                 (''razorpay_payment_id'', JStr pid),
                 (''razorpay_signature'', JStr sig),
                 (''order_id'', JStr ''order_abc'')])"

definition example_world_gateway_down :: world where
  "example_world_gateway_down = example_world\<lparr>gateway_create := (\<lambda>d. None)\<rparr>"

definition example_call :: gateway_order_data where
  "example_call =
     \<lparr>gw_amount = 9900, gw_currency = ''INR'', gw_receipt = ''order-1700000000'',
      gw_notes_user_name = ''Alice'', gw_notes_user_email = ''alice@x.com'',
      gw_notes_user_whatsapp = ''+911234567890''\<rparr>"

definition example_signature :: "string \<Rightarrow> string" where
  "example_signature pid = ''mac(topsecret,order_abc|'' @ pid @ '')''"

definition example_created :: state where
  "example_created =
     snd (create_order example_world (example_create_request ''Alice'' 99) (init_db None))"

definition example_paid :: state where
  "example_paid =
     snd (verify_payment example_world
            (example_verify_request ''pay_1'' (example_signature ''pay_1'')) example_created)"

definition example_fraction_request :: request where
  "example_fraction_request =
     Body (JObj [(''name'', JStr ''Alice''),
                 (''email'', JStr ''alice@x.com''),
                 (''whatsapp'', JStr ''+911234567890''),
                 (''amount'', JFloat (- (1 / 2)))])"

definition example_untyped_request :: request where
  "example_untyped_request =
     Body (JObj [(''name'', JInt 5),
                 (''email'', JStr ''alice@x.com''),
                 (''whatsapp'', JStr ''+911234567890''),
                 (''amount'', JInt 99)])"

section \<open>Properties\<close>

declare digits_of.simps [simp del]

subsection \<open>Payment verification\<close>

lemma verify_payment_strings:
  assumes "dict_get kvs ''razorpay_order_id'' = JStr oid" and "oid \<noteq> []"
    and "dict_get kvs ''razorpay_payment_id'' = JStr pid" and "pid \<noteq> []"
    and "truthy (dict_get kvs ''razorpay_signature'')"
    and "truthy (dict_get kvs ''order_id'')"
    and "razorpay_key_secret w = Some secret"
  shows "verify_payment w (Body (JObj kvs)) s =
           (if JStr (expected_signature w secret oid pid) = dict_get kvs ''razorpay_signature''
            then payment_verified w (dict_get kvs ''order_id'') pid s
            else (Error_response 400 ''Payment verification failed - Invalid signature'', s))"
  using assms by (simp add: verify_payment_def)

lemma payment_verified_response:
  "fst (payment_verified w our pid s) = Payment_verified pid our"
  by (simp add: payment_verified_def Let_def split: prod.splits)

text \<open>
  Claim C1.  Once the four fields of a verification request are present (the handler's
  first step), with the two gateway ids and the signature being strings and the secret
  configured, the handler accepts the supplied signature exactly when it equals the
  hex digest of \<open>order id | payment id\<close> under the secret, and answers every other
  string with the invalid-signature error.  A digest computed with another secret is
  such another string whenever it differs from the digest under the configured one.
\<close>

theorem signature_check:
  assumes "dict_get kvs ''razorpay_order_id'' = JStr oid" and "oid \<noteq> []"
    and "dict_get kvs ''razorpay_payment_id'' = JStr pid" and "pid \<noteq> []"
    and "dict_get kvs ''razorpay_signature'' = JStr sig" and "sig \<noteq> []"
    and "truthy (dict_get kvs ''order_id'')"
    and "razorpay_key_secret w = Some secret"
  shows "fst (verify_payment w (Body (JObj kvs)) s) =
           (if sig = hmac_sha256_hex w secret (oid @ ''|'' @ pid)
            then Payment_verified pid (dict_get kvs ''order_id'')
            else Error_response 400 ''Payment verification failed - Invalid signature'')"
proof -
  have "truthy (dict_get kvs ''razorpay_signature'')"
    using assms(5,6) by simp
  from verify_payment_strings [OF assms(1-4) this assms(7,8)]
  show ?thesis
    using assms(5) by (auto simp: expected_signature_def payment_verified_response)
qed

theorem signature_check_witness:
  "fst (verify_payment example_world
          (example_verify_request ''pay_xyz'' ''mac(topsecret,order_abc|pay_xyz)'') (init_db None))
     = Payment_verified ''pay_xyz'' (JStr ''order_abc'') \<and>
   fst (verify_payment example_world
          (example_verify_request ''pay_xyz'' ''mac(othersecret,order_abc|pay_xyz)'') (init_db None))
     = Error_response 400 ''Payment verification failed - Invalid signature''"
  using signature_check [of "[(''razorpay_order_id'', JStr ''order_abc''),
                 (''razorpay_payment_id'', JStr ''pay_xyz''),
                 (''razorpay_signature'', JStr ''mac(topsecret,order_abc|pay_xyz)''),
                 (''order_id'', JStr ''order_abc'')]" "''order_abc''" "''pay_xyz''"
              "''mac(topsecret,order_abc|pay_xyz)''" example_world "''topsecret''" "init_db None"]
    signature_check [of "[(''razorpay_order_id'', JStr ''order_abc''),
                 (''razorpay_payment_id'', JStr ''pay_xyz''),
                 (''razorpay_signature'', JStr ''mac(othersecret,order_abc|pay_xyz)''),
                 (''order_id'', JStr ''order_abc'')]" "''order_abc''" "''pay_xyz''"
              "''mac(othersecret,order_abc|pay_xyz)''" example_world "''topsecret''" "init_db None"]
  by (simp add: example_verify_request_def example_world_def dict_get_def)

text \<open>
  Claim C2.  A verification request with its four fields present whose signature is
  not the expected digest is answered with the invalid-signature error, and the state
  after the request is the state before it: no order row, no payment row, no mail
  handed to the notifier, no gateway call.
\<close>

theorem signature_mismatch_no_effect:
  assumes "dict_get kvs ''razorpay_order_id'' = JStr oid" and "oid \<noteq> []"
    and "dict_get kvs ''razorpay_payment_id'' = JStr pid" and "pid \<noteq> []"
    and "truthy (dict_get kvs ''razorpay_signature'')"
    and "truthy (dict_get kvs ''order_id'')"
    and "razorpay_key_secret w = Some secret"
    and "dict_get kvs ''razorpay_signature'' \<noteq> JStr (hmac_sha256_hex w secret (oid @ ''|'' @ pid))"
  shows "verify_payment w (Body (JObj kvs)) s =
           (Error_response 400 ''Payment verification failed - Invalid signature'', s)"
  using verify_payment_strings [OF assms(1-7)] assms(8)
  by (auto simp: expected_signature_def)

theorem signature_mismatch_no_effect_witness:
  "JStr ''forged'' \<noteq> JStr (hmac_sha256_hex example_world ''topsecret'' (''order_abc'' @ ''|'' @ ''pay_xyz'')) \<and>
   verify_payment example_world (example_verify_request ''pay_xyz'' ''forged'') (init_db None) =
     (Error_response 400 ''Payment verification failed - Invalid signature'', init_db None)"
  using signature_mismatch_no_effect [of "[(''razorpay_order_id'', JStr ''order_abc''),
                 (''razorpay_payment_id'', JStr ''pay_xyz''),
                 (''razorpay_signature'', JStr ''forged''),
                 (''order_id'', JStr ''order_abc'')]" "''order_abc''" "''pay_xyz''"
              example_world "''topsecret''" "init_db None"]
  by (simp add: example_verify_request_def example_world_def dict_get_def)

subsection \<open>The payments table\<close>

lemma create_order_payments: "payments (snd (create_order w req s)) = payments s"
  by (auto simp: create_order_def create_free_def create_paid_def insert_order_def
      send_email_def Let_def
      split: request.splits sum.splits bool.splits option.splits prod.splits if_splits)

lemma verify_payment_payments: "payments (snd (verify_payment w req s)) = payments s"
  by (auto simp: verify_payment_def payment_verified_def update_order_payment_def
      send_email_async_def Let_def
      split: request.splits json.splits option.splits prod.splits if_splits)

lemma get_order_details_state: "snd (get_order_details w order_id s) = s"
  by (simp add: get_order_details_def split: option.splits prod.splits)

lemma send_book_payments: "payments (snd (send_book w req s)) = payments s"
  by (auto simp: send_book_def send_email_def Let_def
      split: request.splits json.splits option.splits prod.splits if_splits)

lemma handle_payments: "payments (snd (handle w op s)) = payments s"
  by (cases op)
    (simp_all add: create_order_payments verify_payment_payments get_order_details_state
      send_book_payments)

lemma reachable_payments: "reachable s \<Longrightarrow> payments s = []"
  by (induction rule: reachable.induct)
    (simp_all add: init_db_def empty_tables_def handle_payments)

text \<open>
  Claim C10.  The payments table is created empty, every request of every endpoint
  leaves it as it was, and so it is empty in every state the service reaches.
\<close>

theorem payments_never_written:
  "payments (init_db None) = [] \<and>
   payments (snd (handle w op s)) = payments s \<and>
   (reachable s \<longrightarrow> payments s = [])"
  by (simp add: init_db_def empty_tables_def handle_payments reachable_payments)

theorem payments_never_written_witness:
  "reachable (snd (handle example_world (CreateOrder (example_create_request ''Alice'' 0)) (init_db None))) \<and>
   payments (snd (handle example_world (CreateOrder (example_create_request ''Alice'' 0)) (init_db None))) = []"
  using payments_never_written
    [of example_world "CreateOrder (example_create_request ''Alice'' 0)"
      "snd (handle example_world (CreateOrder (example_create_request ''Alice'' 0)) (init_db None))"]
    reachable.request [OF reachable.start, of example_world "CreateOrder (example_create_request ''Alice'' 0)"]
  by simp

subsection \<open>Creating orders\<close>

lemma dict_get_present: "dict_get kvs k \<noteq> JNull \<Longrightarrow> k \<in> set (map fst kvs)"
  by (force simp: dict_get_def split: option.splits dest!: map_of_SomeD)

lemma all_in_dict: "all_in ks (JObj kvs) = Inr (set ks \<subseteq> set (map fst kvs))"
  by (induction ks) (auto split: bool.splits)

lemma py_int_present: "py_int w (dict_get kvs k) = Inr a \<Longrightarrow> k \<in> set (map fst kvs)"
  by (rule dict_get_present) auto

lemma create_order_valid:
  assumes "dict_get kvs ''name'' = JStr n"
    and "dict_get kvs ''email'' = JStr e"
    and "dict_get kvs ''whatsapp'' = JStr wa"
    and "py_int w (dict_get kvs ''amount'') = Inr a"
  shows "create_order w (Body (JObj kvs)) s =
           (if CHR ''@'' \<notin> set (py_strip e) \<or> CHR ''.'' \<notin> set (py_strip e)
            then (Error_response 400 ''Invalid email address'', s)
            else if a < 0 then (Error_response 400 ''Amount cannot be negative'', s)
            else if a = 0 then create_free w (py_strip n) (py_strip e) (py_strip wa) s
            else create_paid w (py_strip n) (py_strip e) (py_strip wa) a s)"
proof -
  have "''name'' \<in> set (map fst kvs)" "''email'' \<in> set (map fst kvs)"
    "''whatsapp'' \<in> set (map fst kvs)"
    using assms(1-3) by (auto intro!: dict_get_present simp del: set_map)
  moreover have "''amount'' \<in> set (map fst kvs)"
    using assms(4) by (rule py_int_present)
  ultimately have a: "all_in required_fields (JObj kvs) = Inr True"
    by (simp add: all_in_dict required_fields_def)
  have p: "parse_fields w (JObj kvs) = Inr (py_strip n, py_strip e, py_strip wa, a)"
    using assms by (simp add: parse_fields_def try_bind_def py_get_def strip_value_def)
  show ?thesis
    by (simp add: create_order_def a p)
qed

lemma create_order_missing:
  assumes "k \<in> set required_fields" "k \<notin> set (map fst kvs)"
  shows "create_order w (Body (JObj kvs)) s =
           (Error_response 400 ''Missing required fields: name, email, whatsapp, amount'', s)"
proof -
  have "all_in required_fields (JObj kvs) = Inr False"
    using assms by (auto simp: all_in_dict)
  then show ?thesis by (simp add: create_order_def)
qed

lemma create_free_result:
  "create_free w name email whatsapp s =
     (if insert_fault w \<or> ''FREE-'' @ py_str_int (time_time w) \<in> dom (orders s)
      then (Error_response 500 ''Failed to create order'', s)
      else (Free_created (''FREE-'' @ py_str_int (time_time w)),
            s\<lparr>orders := (orders s)(''FREE-'' @ py_str_int (time_time w) \<mapsto>
                 \<lparr>user_name = name, user_email = email, user_whatsapp = whatsapp,
                  amount = 0, status = ''created'', payment_id = None,
                  created_at = current_timestamp w, updated_at = current_timestamp w\<rparr>),
              emails := emails s @
                 [\<lparr>recipient = JStr email,
                   template = Free_access name (''FREE-'' @ py_str_int (time_time w)),
                   drive_link = drive_link_of w, dispatch = Sync\<rparr>]\<rparr>))"
  by (simp add: create_free_def insert_order_def send_email_def Let_def)

lemma create_paid_result:
  "create_paid w name email whatsapp amt s =
     (case gateway_create w
             \<lparr>gw_amount = amt * 100, gw_currency = ''INR'',
              gw_receipt = ''order-'' @ py_str_int (datetime_now w),
              gw_notes_user_name = name, gw_notes_user_email = email,
              gw_notes_user_whatsapp = whatsapp\<rparr> of
        None \<Rightarrow>
          (Exception_error ''Server error: '' GatewayError,
           s\<lparr>gateway_calls := gateway_calls s @
               [\<lparr>gw_amount = amt * 100, gw_currency = ''INR'',
                 gw_receipt = ''order-'' @ py_str_int (datetime_now w),
                 gw_notes_user_name = name, gw_notes_user_email = email,
                 gw_notes_user_whatsapp = whatsapp\<rparr>]\<rparr>)
      | Some g \<Rightarrow>
          if insert_fault w \<or> g \<in> dom (orders s) \<or> amt < - (2 ^ 63) \<or> 2 ^ 63 \<le> amt
          then (Error_response 500 ''Failed to save order'',
                s\<lparr>gateway_calls := gateway_calls s @
                    [\<lparr>gw_amount = amt * 100, gw_currency = ''INR'',
                      gw_receipt = ''order-'' @ py_str_int (datetime_now w),
                      gw_notes_user_name = name, gw_notes_user_email = email,
                      gw_notes_user_whatsapp = whatsapp\<rparr>]\<rparr>)
          else (Paid_created g (razorpay_key_id w) amt,
                s\<lparr>gateway_calls := gateway_calls s @
                    [\<lparr>gw_amount = amt * 100, gw_currency = ''INR'',
                      gw_receipt = ''order-'' @ py_str_int (datetime_now w),
                      gw_notes_user_name = name, gw_notes_user_email = email,
                      gw_notes_user_whatsapp = whatsapp\<rparr>],
                  orders := (orders s)(g \<mapsto>
                    \<lparr>user_name = name, user_email = email, user_whatsapp = whatsapp,
                     amount = amt, status = ''created'', payment_id = None,
                     created_at = current_timestamp w, updated_at = current_timestamp w\<rparr>)\<rparr>))"
  by (simp add: create_paid_def insert_order_def Let_def split: option.splits)

lemma digit_chars:
  "char_of (48::nat) = CHR ''0''" "char_of (49::nat) = CHR ''1''"
  "char_of (50::nat) = CHR ''2''" "char_of (51::nat) = CHR ''3''"
  "char_of (52::nat) = CHR ''4''" "char_of (53::nat) = CHR ''5''"
  "char_of (54::nat) = CHR ''6''" "char_of (55::nat) = CHR ''7''"
  "char_of (56::nat) = CHR ''8''" "char_of (57::nat) = CHR ''9''"
  by code_simp+

lemma example_clock: "py_str_int 1700000000 = ''1700000000''"
  by (simp add: py_str_int_def digits_of.simps digit_chars)

lemma example_strip:
  "py_strip ''alice@x.com'' = ''alice@x.com''"
  "py_strip ''Alice'' = ''Alice''"
  "py_strip ''+911234567890'' = ''+911234567890''"
  "py_strip ''   '' = []"
  by (simp_all add: py_strip_def is_space_def)

text \<open>
  Claim C7.  A request whose name, email and whatsapp are strings, whose trimmed email
  has an at sign and a dot, and whose amount converts to 0 takes the free path: the
  order id is \<open>FREE-\<close> followed by the Unix time in seconds; the gateway log is
  untouched; when the insert succeeds the row is stored with status \<open>created\<close> and
  exactly one mail, the free-access one, is handed to the notifier synchronously;
  when the insert fails (a fault, or the id exists already) the answer is the 500
  \<open>Failed to create order\<close> and nothing changes.
\<close>

theorem free_order:
  assumes "dict_get kvs ''name'' = JStr n"
    and "dict_get kvs ''email'' = JStr e"
    and "dict_get kvs ''whatsapp'' = JStr wa"
    and "py_int w (dict_get kvs ''amount'') = Inr 0"
    and "CHR ''@'' \<in> set (py_strip e)" and "CHR ''.'' \<in> set (py_strip e)"
    and "order_id = ''FREE-'' @ py_str_int (time_time w)"
  shows "create_order w (Body (JObj kvs)) s =
     (if insert_fault w \<or> order_id \<in> dom (orders s)
      then (Error_response 500 ''Failed to create order'', s)
      else (Free_created order_id,
            s\<lparr>orders := (orders s)(order_id \<mapsto>
                 \<lparr>user_name = py_strip n, user_email = py_strip e,
                  user_whatsapp = py_strip wa,
                  amount = 0, status = ''created'', payment_id = None,
                  created_at = current_timestamp w, updated_at = current_timestamp w\<rparr>),
              emails := emails s @
                 [\<lparr>recipient = JStr (py_strip e),
                   template = Free_access (py_strip n) order_id,
                   drive_link = drive_link_of w, dispatch = Sync\<rparr>]\<rparr>))"
  using create_order_valid [OF assms(1-4), of s] assms(5-7)
  by (simp add: create_free_result)

theorem free_order_witness:
  "create_order example_world (example_create_request ''Alice'' 0) (init_db None) =
     (Free_created ''FREE-1700000000'',
      \<lparr>orders = [''FREE-1700000000'' \<mapsto>
                 \<lparr>user_name = ''Alice'', user_email = ''alice@x.com'',
                  user_whatsapp = ''+911234567890'',
                  amount = 0, status = ''created'', payment_id = None,
                  created_at = 1700000000, updated_at = 1700000000\<rparr>],
       payments = [],
       emails = [\<lparr>recipient = JStr ''alice@x.com'',
                   template = Free_access ''Alice'' ''FREE-1700000000'',
                   drive_link = default_drive_link, dispatch = Sync\<rparr>],
       gateway_calls = []\<rparr>)"
  using free_order [of "[(''name'', JStr ''Alice''),
                 (''email'', JStr ''alice@x.com''),
                 (''whatsapp'', JStr ''+911234567890''),
                 (''amount'', JInt 0)]" "''Alice''" "''alice@x.com''" "''+911234567890''"
          example_world "''FREE-1700000000''" "init_db None"]
  by (simp add: example_create_request_def example_world_def dict_get_def init_db_def
      empty_tables_def example_clock example_strip drive_link_of_def)

text \<open>
  Claim C8.  A valid request with a positive amount calls the gateway exactly once,
  with the amount multiplied by 100; when the gateway answers with an id and the
  insert succeeds, the row is stored under that id with status \<open>created\<close>.
\<close>

theorem paid_order:
  assumes "dict_get kvs ''name'' = JStr n"
    and "dict_get kvs ''email'' = JStr e"
    and "dict_get kvs ''whatsapp'' = JStr wa"
    and "py_int w (dict_get kvs ''amount'') = Inr a"
    and "0 < a"
    and "CHR ''@'' \<in> set (py_strip e)" and "CHR ''.'' \<in> set (py_strip e)"
    and "call = \<lparr>gw_amount = a * 100, gw_currency = ''INR'',
                  gw_receipt = ''order-'' @ py_str_int (datetime_now w),
                  gw_notes_user_name = py_strip n, gw_notes_user_email = py_strip e,
                  gw_notes_user_whatsapp = py_strip wa\<rparr>"
  shows "gateway_calls (snd (create_order w (Body (JObj kvs)) s)) = gateway_calls s @ [call] \<and>
         (\<forall>g. gateway_create w call = Some g \<and> \<not> insert_fault w \<and> g \<notin> dom (orders s) \<and> a < 2 ^ 63 \<longrightarrow>
            create_order w (Body (JObj kvs)) s =
              (Paid_created g (razorpay_key_id w) a,
               s\<lparr>gateway_calls := gateway_calls s @ [call],
                 orders := (orders s)(g \<mapsto>
                    \<lparr>user_name = py_strip n, user_email = py_strip e,
                     user_whatsapp = py_strip wa,
                     amount = a, status = ''created'', payment_id = None,
                     created_at = current_timestamp w, updated_at = current_timestamp w\<rparr>)\<rparr>))"
  using create_order_valid [OF assms(1-4), of s] assms(5-8)
  by (auto simp: create_paid_result split: option.splits)

theorem paid_order_witness:
  "gateway_calls (snd (create_order example_world (example_create_request ''Alice'' 99) (init_db None)))
     = [example_call] \<and>
   create_order example_world (example_create_request ''Alice'' 99) (init_db None) =
     (Paid_created ''order_abc'' (Some ''rzp_test_key'') 99,
      \<lparr>orders = [''order_abc'' \<mapsto>
                 \<lparr>user_name = ''Alice'', user_email = ''alice@x.com'',
                  user_whatsapp = ''+911234567890'',
                  amount = 99, status = ''created'', payment_id = None,
                  created_at = 1700000000, updated_at = 1700000000\<rparr>],
       payments = [], emails = [], gateway_calls = [example_call]\<rparr>)"
  using paid_order [of "[(''name'', JStr ''Alice''),
                 (''email'', JStr ''alice@x.com''),
                 (''whatsapp'', JStr ''+911234567890''),
                 (''amount'', JInt 99)]" "''Alice''" "''alice@x.com''" "''+911234567890''"
          example_world 99 example_call "init_db None"]
  by (simp add: example_create_request_def example_world_def dict_get_def init_db_def
      empty_tables_def example_clock example_strip example_call_def)

text \<open>
  Claim C9.  When the gateway call of a valid paid request raises, the answer is the
  500 of the handler's \<open>except\<close> block carrying the gateway's exception, and no order
  row is stored: the orders table, the payments table and the notifier log are as
  before.
\<close>

theorem gateway_failure_persists_nothing:
  assumes "dict_get kvs ''name'' = JStr n"
    and "dict_get kvs ''email'' = JStr e"
    and "dict_get kvs ''whatsapp'' = JStr wa"
    and "py_int w (dict_get kvs ''amount'') = Inr a"
    and "0 < a"
    and "CHR ''@'' \<in> set (py_strip e)" and "CHR ''.'' \<in> set (py_strip e)"
    and "gateway_create w
           \<lparr>gw_amount = a * 100, gw_currency = ''INR'',
            gw_receipt = ''order-'' @ py_str_int (datetime_now w),
            gw_notes_user_name = py_strip n, gw_notes_user_email = py_strip e,
            gw_notes_user_whatsapp = py_strip wa\<rparr> = None"
  shows "fst (create_order w (Body (JObj kvs)) s) = Exception_error ''Server error: '' GatewayError \<and>
         orders (snd (create_order w (Body (JObj kvs)) s)) = orders s \<and>
         payments (snd (create_order w (Body (JObj kvs)) s)) = payments s \<and>
         emails (snd (create_order w (Body (JObj kvs)) s)) = emails s"
  using create_order_valid [OF assms(1-4), of s] assms(5-8)
  by (simp add: create_paid_result)

theorem gateway_failure_persists_nothing_witness:
  "fst (create_order example_world_gateway_down
          (example_create_request ''Alice'' 99) (init_db None))
     = Exception_error ''Server error: '' GatewayError \<and>
   orders (snd (create_order example_world_gateway_down
          (example_create_request ''Alice'' 99) (init_db None))) = Map.empty"
  using gateway_failure_persists_nothing [of "[(''name'', JStr ''Alice''),
                 (''email'', JStr ''alice@x.com''),
                 (''whatsapp'', JStr ''+911234567890''),
                 (''amount'', JInt 99)]" "''Alice''" "''alice@x.com''" "''+911234567890''"
          example_world_gateway_down 99 "init_db None"]
  by (simp add: example_create_request_def example_world_gateway_down_def example_world_def
      dict_get_def init_db_def empty_tables_def example_strip)

lemma parse_fieldsD:
  assumes "parse_fields w (JObj kvs) = Inr (n', e', wa', a)"
  shows "\<exists>n e wa. dict_get kvs ''name'' = JStr n \<and> dict_get kvs ''email'' = JStr e \<and>
           dict_get kvs ''whatsapp'' = JStr wa \<and> py_int w (dict_get kvs ''amount'') = Inr a \<and>
           n' = py_strip n \<and> e' = py_strip e \<and> wa' = py_strip wa"
  using assms
  by (auto simp: parse_fields_def try_bind_def py_get_def strip_value_def
      split: json.splits sum.splits)

lemma create_free_not_400: "status_code (fst (create_free w n e wa s)) \<noteq> 400"
  by (simp add: create_free_result)

lemma create_paid_not_400: "status_code (fst (create_paid w n e wa a s)) \<noteq> 400"
  by (simp add: create_paid_result split: option.splits)

lemma create_order_400_state:
  "status_code (fst (create_order w req s)) = 400 \<Longrightarrow> snd (create_order w req s) = s"
  using create_free_not_400 create_paid_not_400
  by (auto simp: create_order_def split: request.splits sum.splits bool.splits if_splits)

lemma create_order_400_iff:
  "(status_code (fst (create_order w (Body (JObj kvs)) s)) = 400) =
     ((\<exists>k. k \<in> set required_fields \<and> k \<notin> set (map fst kvs)) \<or>
      (\<exists>n e wa a. dict_get kvs ''name'' = JStr n \<and> dict_get kvs ''email'' = JStr e \<and>
         dict_get kvs ''whatsapp'' = JStr wa \<and> py_int w (dict_get kvs ''amount'') = Inr a \<and>
         (CHR ''@'' \<notin> set (py_strip e) \<or> CHR ''.'' \<notin> set (py_strip e) \<or> a < 0)))"
proof (intro iffI)
  assume c: "status_code (fst (create_order w (Body (JObj kvs)) s)) = 400"
  show "(\<exists>k. k \<in> set required_fields \<and> k \<notin> set (map fst kvs)) \<or>
      (\<exists>n e wa a. dict_get kvs ''name'' = JStr n \<and> dict_get kvs ''email'' = JStr e \<and>
         dict_get kvs ''whatsapp'' = JStr wa \<and> py_int w (dict_get kvs ''amount'') = Inr a \<and>
         (CHR ''@'' \<notin> set (py_strip e) \<or> CHR ''.'' \<notin> set (py_strip e) \<or> a < 0))"
  proof (cases "set required_fields \<subseteq> set (map fst kvs)")
    case False
    then show ?thesis by blast
  next
    case True
    then have a: "all_in required_fields (JObj kvs) = Inr True"
      by (simp add: all_in_dict)
    show ?thesis
    proof (cases "parse_fields w (JObj kvs)")
      case (Inl e)
      with a c show ?thesis by (simp add: create_order_def)
    next
      case (Inr t)
      obtain n' e' wa' a where t: "t = (n', e', wa', a)"
        by (cases t)
      from parse_fieldsD [OF Inr [unfolded t]]
      obtain n e wa where f: "dict_get kvs ''name'' = JStr n" "dict_get kvs ''email'' = JStr e"
        "dict_get kvs ''whatsapp'' = JStr wa" "py_int w (dict_get kvs ''amount'') = Inr a"
        by blast
      from c create_order_valid [OF f, of s]
      have "CHR ''@'' \<notin> set (py_strip e) \<or> CHR ''.'' \<notin> set (py_strip e) \<or> a < 0"
        using create_free_not_400 create_paid_not_400
        by (auto split: if_splits)
      with f show ?thesis by blast
    qed
  qed
next
  assume "(\<exists>k. k \<in> set required_fields \<and> k \<notin> set (map fst kvs)) \<or>
      (\<exists>n e wa a. dict_get kvs ''name'' = JStr n \<and> dict_get kvs ''email'' = JStr e \<and>
         dict_get kvs ''whatsapp'' = JStr wa \<and> py_int w (dict_get kvs ''amount'') = Inr a \<and>
         (CHR ''@'' \<notin> set (py_strip e) \<or> CHR ''.'' \<notin> set (py_strip e) \<or> a < 0))"
  then show "status_code (fst (create_order w (Body (JObj kvs)) s)) = 400"
  proof (elim disjE exE conjE)
    fix k assume "k \<in> set required_fields" "k \<notin> set (map fst kvs)"
    then show ?thesis by (simp add: create_order_missing)
  next
    fix n e wa a
    assume f: "dict_get kvs ''name'' = JStr n" "dict_get kvs ''email'' = JStr e"
        "dict_get kvs ''whatsapp'' = JStr wa" "py_int w (dict_get kvs ''amount'') = Inr a"
      and "CHR ''@'' \<notin> set (py_strip e)"
    then show ?thesis by (simp add: create_order_valid [OF f])
  next
    fix n e wa a
    assume f: "dict_get kvs ''name'' = JStr n" "dict_get kvs ''email'' = JStr e"
        "dict_get kvs ''whatsapp'' = JStr wa" "py_int w (dict_get kvs ''amount'') = Inr a"
      and "CHR ''.'' \<notin> set (py_strip e)"
    then show ?thesis by (simp add: create_order_valid [OF f])
  next
    fix n e wa a
    assume f: "dict_get kvs ''name'' = JStr n" "dict_get kvs ''email'' = JStr e"
        "dict_get kvs ''whatsapp'' = JStr wa" "py_int w (dict_get kvs ''amount'') = Inr a"
      and "a < 0"
    then show ?thesis by (simp add: create_order_valid [OF f])
  qed
qed

lemma py_int_fraction:
  assumes "- 1 < r" and "r < 1"
  shows "py_int w (JFloat r) = Inr 0"
proof (cases "0 \<le> r")
  case True
  with assms have "\<lfloor>r\<rfloor> = 0" by (simp add: floor_eq_iff)
  with True show ?thesis by simp
next
  case False
  with assms have "\<lceil>r\<rceil> = 0" by (simp add: ceiling_eq_iff)
  with False show ?thesis by simp
qed

lemma create_order_fraction:
  assumes "dict_get kvs ''name'' = JStr n"
    and "dict_get kvs ''email'' = JStr e"
    and "dict_get kvs ''whatsapp'' = JStr wa"
    and "dict_get kvs ''amount'' = JFloat r"
    and "CHR ''@'' \<in> set (py_strip e)" and "CHR ''.'' \<in> set (py_strip e)"
    and "- 1 < r" and "r < 1"
  shows "create_order w (Body (JObj kvs)) s =
           create_free w (py_strip n) (py_strip e) (py_strip wa) s"
proof -
  have "py_int w (dict_get kvs ''amount'') = Inr 0"
    using assms(4,7,8) by (simp only: py_int_fraction)
  from create_order_valid [OF assms(1-3) this, of s] assms(5,6)
  show ?thesis by simp
qed

lemma create_order_wrong_type:
  assumes "set required_fields \<subseteq> set (map fst kvs)"
    and "\<not> (\<exists>n e wa a. dict_get kvs ''name'' = JStr n \<and> dict_get kvs ''email'' = JStr e \<and>
            dict_get kvs ''whatsapp'' = JStr wa \<and> py_int w (dict_get kvs ''amount'') = Inr a)"
  shows "\<exists>x. create_order w (Body (JObj kvs)) s = (Exception_error ''Server error: '' x, s)"
proof -
  have a: "all_in required_fields (JObj kvs) = Inr True"
    using assms(1) by (simp add: all_in_dict)
  show ?thesis
  proof (cases "parse_fields w (JObj kvs)")
    case (Inl x)
    with a show ?thesis by (simp add: create_order_def)
  next
    case (Inr t)
    obtain n' e' wa' a where t: "t = (n', e', wa', a)"
      by (cases t)
    from parse_fieldsD [OF Inr [unfolded t]] assms(2)
    show ?thesis by blast
  qed
qed

text \<open>
  Claim C5, as the code has it.  For a request whose body is a JSON object:
  \<^item> the answer is a client validation error (HTTP 400) exactly when one of the keys
    name, email, whatsapp, amount is absent, or name, email and whatsapp are strings,
    \<^verbatim>\<open>int(amount)\<close> succeeds, and the trimmed email lacks an at sign or a dot or
    \<^verbatim>\<open>int(amount)\<close> is negative; every 400 leaves the state as it was;
  \<^item> the test is on \<^verbatim>\<open>int(amount)\<close>, not on the amount as sent: \<^verbatim>\<open>int\<close> truncates a
    float towards zero, so an amount strictly between -1 and 1 (such as -0.5) converts
    to 0 and an otherwise valid request with it is not rejected but handled as a free
    order;
  \<^item> name and whatsapp are not tested for emptiness (they occur in no condition above);
  \<^item> when the four keys are present and name, email or whatsapp is not a string, or
    \<^verbatim>\<open>int(amount)\<close> raises, the answer is the 500 of the \<open>except\<close> block and the
    state is as it was.
\<close>

theorem create_order_validation:
  "((status_code (fst (create_order w (Body (JObj kvs)) s)) = 400) =
     ((\<exists>k. k \<in> set required_fields \<and> k \<notin> set (map fst kvs)) \<or>
      (\<exists>n e wa a. dict_get kvs ''name'' = JStr n \<and> dict_get kvs ''email'' = JStr e \<and>
         dict_get kvs ''whatsapp'' = JStr wa \<and> py_int w (dict_get kvs ''amount'') = Inr a \<and>
         (CHR ''@'' \<notin> set (py_strip e) \<or> CHR ''.'' \<notin> set (py_strip e) \<or> a < 0)))) \<and>
   (status_code (fst (create_order w req s)) = 400 \<longrightarrow> snd (create_order w req s) = s) \<and>
   (py_int w (JFloat r) = Inr (if 0 \<le> r then \<lfloor>r\<rfloor> else \<lceil>r\<rceil>)) \<and>
   (dict_get kvs ''name'' = JStr n \<and> dict_get kvs ''email'' = JStr e \<and>
    dict_get kvs ''whatsapp'' = JStr wa \<and> dict_get kvs ''amount'' = JFloat r \<and>
    CHR ''@'' \<in> set (py_strip e) \<and> CHR ''.'' \<in> set (py_strip e) \<and> - 1 < r \<and> r < 1 \<longrightarrow>
      create_order w (Body (JObj kvs)) s =
        create_free w (py_strip n) (py_strip e) (py_strip wa) s \<and>
      status_code (fst (create_order w (Body (JObj kvs)) s)) \<noteq> 400) \<and>
   (set required_fields \<subseteq> set (map fst kvs) \<and>
    \<not> (\<exists>n e wa a. dict_get kvs ''name'' = JStr n \<and> dict_get kvs ''email'' = JStr e \<and>
            dict_get kvs ''whatsapp'' = JStr wa \<and> py_int w (dict_get kvs ''amount'') = Inr a) \<longrightarrow>
      (\<exists>x. create_order w (Body (JObj kvs)) s = (Exception_error ''Server error: '' x, s)) \<and>
      status_code (fst (create_order w (Body (JObj kvs)) s)) = 500)"
proof (intro conjI impI)
  show "(status_code (fst (create_order w (Body (JObj kvs)) s)) = 400) =
     ((\<exists>k. k \<in> set required_fields \<and> k \<notin> set (map fst kvs)) \<or>
      (\<exists>n e wa a. dict_get kvs ''name'' = JStr n \<and> dict_get kvs ''email'' = JStr e \<and>
         dict_get kvs ''whatsapp'' = JStr wa \<and> py_int w (dict_get kvs ''amount'') = Inr a \<and>
         (CHR ''@'' \<notin> set (py_strip e) \<or> CHR ''.'' \<notin> set (py_strip e) \<or> a < 0)))"
    by (rule create_order_400_iff)
next
  assume "status_code (fst (create_order w req s)) = 400"
  then show "snd (create_order w req s) = s"
    by (rule create_order_400_state)
next
  show "py_int w (JFloat r) = Inr (if 0 \<le> r then \<lfloor>r\<rfloor> else \<lceil>r\<rceil>)"
    by simp
next
  assume h: "dict_get kvs ''name'' = JStr n \<and> dict_get kvs ''email'' = JStr e \<and>
    dict_get kvs ''whatsapp'' = JStr wa \<and> dict_get kvs ''amount'' = JFloat r \<and>
    CHR ''@'' \<in> set (py_strip e) \<and> CHR ''.'' \<in> set (py_strip e) \<and> - 1 < r \<and> r < 1"
  show f: "create_order w (Body (JObj kvs)) s =
        create_free w (py_strip n) (py_strip e) (py_strip wa) s"
    using h by (elim conjE) (rule create_order_fraction; assumption)
  show "status_code (fst (create_order w (Body (JObj kvs)) s)) \<noteq> 400"
    unfolding f by (rule create_free_not_400)
next
  assume h: "set required_fields \<subseteq> set (map fst kvs) \<and>
    \<not> (\<exists>n e wa a. dict_get kvs ''name'' = JStr n \<and> dict_get kvs ''email'' = JStr e \<and>
            dict_get kvs ''whatsapp'' = JStr wa \<and> py_int w (dict_get kvs ''amount'') = Inr a)"
  have x: "\<exists>x. create_order w (Body (JObj kvs)) s = (Exception_error ''Server error: '' x, s)"
    using h by (elim conjE) (rule create_order_wrong_type; assumption)
  then show "\<exists>x. create_order w (Body (JObj kvs)) s = (Exception_error ''Server error: '' x, s)" .
  from x obtain y where "create_order w (Body (JObj kvs)) s = (Exception_error ''Server error: '' y, s)"
    by (elim exE)
  then show "status_code (fst (create_order w (Body (JObj kvs)) s)) = 500"
    by simp
qed

theorem create_order_validation_witness:
  "status_code (fst (create_order example_world (example_create_request ''Alice'' (- 1)) (init_db None))) = 400 \<and>
   snd (create_order example_world (example_create_request ''Alice'' (- 1)) (init_db None)) = init_db None \<and>
   fst (create_order example_world example_fraction_request (init_db None)) =
     Free_created ''FREE-1700000000'' \<and>
   create_order example_world example_untyped_request (init_db None) =
     (Exception_error ''Server error: '' AttributeError, init_db None)"
proof -
  from create_order_validation [of example_world "[(''name'', JStr ''Alice''),
                 (''email'', JStr ''alice@x.com''),
                 (''whatsapp'', JStr ''+911234567890''),
                 (''amount'', JInt (- 1))]" "init_db None"
                 "example_create_request ''Alice'' (- 1)"]
  have a: "status_code (fst (create_order example_world (example_create_request ''Alice'' (- 1)) (init_db None))) = 400 \<and>
   snd (create_order example_world (example_create_request ''Alice'' (- 1)) (init_db None)) = init_db None"
    by (simp add: example_create_request_def dict_get_def)
  from create_order_validation [of example_world "[(''name'', JStr ''Alice''),
                 (''email'', JStr ''alice@x.com''),
                 (''whatsapp'', JStr ''+911234567890''),
                 (''amount'', JFloat (- (1 / 2)))]" "init_db None" _ "- (1 / 2)"
                 "''Alice''" "''alice@x.com''" "''+911234567890''"]
  have "create_order example_world example_fraction_request (init_db None) =
      create_free example_world ''Alice'' ''alice@x.com'' ''+911234567890'' (init_db None)"
    by (simp add: example_fraction_request_def dict_get_def example_strip)
  then have b: "fst (create_order example_world example_fraction_request (init_db None)) =
     Free_created ''FREE-1700000000''"
    by (simp add: create_free_result example_world_def init_db_def empty_tables_def example_clock)
  from create_order_validation [of example_world "[(''name'', JInt 5),
                 (''email'', JStr ''alice@x.com''),
                 (''whatsapp'', JStr ''+911234567890''),
                 (''amount'', JInt 99)]" "init_db None"]
  have "\<exists>x. create_order example_world example_untyped_request (init_db None) =
      (Exception_error ''Server error: '' x, init_db None)"
    by (simp add: example_untyped_request_def dict_get_def required_fields_def)
  then have c: "create_order example_world example_untyped_request (init_db None) =
     (Exception_error ''Server error: '' AttributeError, init_db None)"
    by (auto simp: example_untyped_request_def create_order_def required_fields_def
        parse_fields_def try_bind_def py_get_def strip_value_def dict_get_def)
  from a b c show ?thesis by (intro conjI) simp_all
qed

text \<open>
  Claim C5 as stated fails.  A name of three blanks is empty after trimming, yet the
  request is answered with a success and the order is stored, with the empty name.
  An amount of -0.5 is neither an integer nor non-negative, yet the request is
  answered with a success and stored as a free order of amount 0.
\<close>

theorem blank_name_accepted:
  "py_strip ''   '' = [] \<and>
   fst (create_order example_world (example_create_request ''   '' 0) (init_db None)) =
     Free_created ''FREE-1700000000'' \<and>
   map_option user_name
     (orders (snd (create_order example_world (example_create_request ''   '' 0) (init_db None)))
        ''FREE-1700000000'') = Some [] \<and>
   fst (create_order example_world example_fraction_request (init_db None)) =
     Free_created ''FREE-1700000000'' \<and>
   map_option amount
     (orders (snd (create_order example_world example_fraction_request (init_db None)))
        ''FREE-1700000000'') = Some 0"
  by (simp add: create_order_valid [of _ "''   ''" "''alice@x.com''" "''+911234567890''" _ 0]
      create_order_fraction [of _ "''Alice''" "''alice@x.com''" "''+911234567890''" "- (1 / 2)"]
      create_free_result example_create_request_def example_fraction_request_def
      example_world_def dict_get_def init_db_def
      empty_tables_def example_clock example_strip)

subsection \<open>Updating an order with its payment\<close>

lemma update_order_payment_result:
  assumes "sql_param w order_id = Some k" and "\<not> update_fault w"
  shows "update_order_payment w order_id pid st s =
           (True, case orders s k of
                    None \<Rightarrow> s
                  | Some r \<Rightarrow> s\<lparr>orders := (orders s)(k \<mapsto>
                       r\<lparr>payment_id := Some pid, status := st,
                         updated_at := current_timestamp w\<rparr>)\<rparr>)"
  using assms by (simp add: update_order_payment_def split: option.splits)

lemma update_order_payment_absent:
  assumes "sql_param w order_id = Some k" and "orders s k = None"
  shows "snd (update_order_payment w order_id pid st s) = s"
  using assms by (simp add: update_order_payment_def)

lemma payment_verified_absent:
  assumes "sql_param w order_id = Some k" and "orders s k = None"
  shows "payment_verified w order_id pid s = (Payment_verified pid order_id, s)"
  using assms
  by (simp add: payment_verified_def update_order_payment_def get_order_def Let_def)

lemma payment_verified_orders:
  "orders (snd (payment_verified w our pid s)) =
     orders (snd (update_order_payment w our pid ''paid'' s))"
  by (simp add: payment_verified_def send_email_async_def Let_def
      split: prod.splits option.splits)

lemma example_created_state:
  "example_created =
     \<lparr>orders = [''order_abc'' \<mapsto>
                 \<lparr>user_name = ''Alice'', user_email = ''alice@x.com'',
                  user_whatsapp = ''+911234567890'',
                  amount = 99, status = ''created'', payment_id = None,
                  created_at = 1700000000, updated_at = 1700000000\<rparr>],
       payments = [], emails = [], gateway_calls = [example_call]\<rparr>"
  by (simp add: example_created_def
      create_order_valid [of _ "''Alice''" "''alice@x.com''" "''+911234567890''" _ 99]
      create_paid_result example_create_request_def example_world_def dict_get_def init_db_def
      empty_tables_def example_clock example_strip example_call_def)

text \<open>
  Claim C4, as the code has it.  For an order id that the store does not hold, the
  payment update changes nothing and, unless the database itself fails, returns
  \<open>True\<close>: there is no not-found error; a verification request with a valid signature
  that names such an order is answered with a success, the state unchanged and no mail
  sent.  For an order id that the store holds, the update sets \<open>payment_id\<close> and
  \<open>status\<close> and refreshes \<open>updated_at\<close>.
\<close>

theorem update_of_unknown_order:
  assumes "sql_param w order_id = Some k"
  shows "(orders s k = None \<longrightarrow>
            snd (update_order_payment w order_id pid st s) = s \<and>
            (\<not> update_fault w \<longrightarrow> fst (update_order_payment w order_id pid st s) = True)) \<and>
         (\<forall>kvs oid secret.
            orders s k = None \<and>
            dict_get kvs ''razorpay_order_id'' = JStr oid \<and> oid \<noteq> [] \<and>
            dict_get kvs ''razorpay_payment_id'' = JStr pid \<and> pid \<noteq> [] \<and>
            razorpay_key_secret w = Some secret \<and>
            dict_get kvs ''razorpay_signature'' = JStr (hmac_sha256_hex w secret (oid @ ''|'' @ pid)) \<and>
            hmac_sha256_hex w secret (oid @ ''|'' @ pid) \<noteq> [] \<and>
            dict_get kvs ''order_id'' = order_id \<and> truthy order_id \<longrightarrow>
            verify_payment w (Body (JObj kvs)) s = (Payment_verified pid order_id, s)) \<and>
         (\<forall>r. orders s k = Some r \<and> \<not> update_fault w \<longrightarrow>
            update_order_payment w order_id pid st s =
              (True, s\<lparr>orders := (orders s)(k \<mapsto>
                         r\<lparr>payment_id := Some pid, status := st,
                           updated_at := current_timestamp w\<rparr>)\<rparr>))"
proof (intro conjI allI impI)
  assume "orders s k = None"
  with assms show "snd (update_order_payment w order_id pid st s) = s"
    by (rule update_order_payment_absent)
next
  assume "orders s k = None" "\<not> update_fault w"
  with assms show "fst (update_order_payment w order_id pid st s) = True"
    by (simp add: update_order_payment_result)
next
  fix kvs oid secret
  assume h: "orders s k = None \<and>
            dict_get kvs ''razorpay_order_id'' = JStr oid \<and> oid \<noteq> [] \<and>
            dict_get kvs ''razorpay_payment_id'' = JStr pid \<and> pid \<noteq> [] \<and>
            razorpay_key_secret w = Some secret \<and>
            dict_get kvs ''razorpay_signature'' = JStr (hmac_sha256_hex w secret (oid @ ''|'' @ pid)) \<and>
            hmac_sha256_hex w secret (oid @ ''|'' @ pid) \<noteq> [] \<and>
            dict_get kvs ''order_id'' = order_id \<and> truthy order_id"
  then have "verify_payment w (Body (JObj kvs)) s = payment_verified w order_id pid s"
    by (simp add: verify_payment_strings [of kvs oid pid w secret] expected_signature_def)
  with h assms show "verify_payment w (Body (JObj kvs)) s = (Payment_verified pid order_id, s)"
    by (simp add: payment_verified_absent)
next
  fix r
  assume "orders s k = Some r \<and> \<not> update_fault w"
  with assms show "update_order_payment w order_id pid st s =
              (True, s\<lparr>orders := (orders s)(k \<mapsto>
                         r\<lparr>payment_id := Some pid, status := st,
                           updated_at := current_timestamp w\<rparr>)\<rparr>)"
    by (simp add: update_order_payment_result)
qed

theorem update_of_unknown_order_witness:
  "sql_param example_world (JStr ''order_abc'') = Some ''order_abc'' \<and>
   orders (init_db None) ''order_abc'' = None \<and>
   update_order_payment example_world (JStr ''order_abc'') ''pay_1'' ''paid'' (init_db None)
     = (True, init_db None) \<and>
   orders example_created ''order_abc'' \<noteq> None \<and>
   map_option payment_id
     (orders (snd (update_order_payment example_world (JStr ''order_abc'') ''pay_1'' ''paid''
                     example_created)) ''order_abc'') = Some (Some ''pay_1'') \<and>
   map_option status
     (orders (snd (update_order_payment example_world (JStr ''order_abc'') ''pay_1'' ''paid''
                     example_created)) ''order_abc'') = Some ''paid''"
  using update_of_unknown_order [of example_world "JStr ''order_abc''" "''order_abc''"
      "init_db None" "''pay_1''" "''paid''"]
    update_of_unknown_order [of example_world "JStr ''order_abc''" "''order_abc''"
      example_created "''pay_1''" "''paid''"]
  by (simp add: sql_param_def example_created_state prod_eq_iff)
    (simp add: init_db_def empty_tables_def example_world_def)

text \<open>
  Claim C4 as stated fails: on the empty store the update of order \<open>order_abc\<close>
  returns \<open>True\<close>, and the verification request naming it reports success.
\<close>

theorem unknown_order_reports_success:
  "update_order_payment example_world (JStr ''order_abc'') ''pay_xyz'' ''paid'' (init_db None) =
     (True, init_db None) \<and>
   verify_payment example_world (example_verify_request ''pay_xyz'' (example_signature ''pay_xyz''))
     (init_db None) = (Payment_verified ''pay_xyz'' (JStr ''order_abc''), init_db None)"
  by (simp add: update_order_payment_def sql_param_def verify_payment_def payment_verified_def
      get_order_def expected_signature_def example_verify_request_def example_signature_def
      example_world_def dict_get_def init_db_def empty_tables_def)

subsection \<open>Verifying twice\<close>

lemma payment_verified_marks_paid:
  assumes "orders s k = Some r" and "\<not> update_fault w"
  shows "orders (snd (payment_verified w (JStr k) pid s)) k =
           Some (r\<lparr>payment_id := Some pid, status := ''paid'',
                   updated_at := current_timestamp w\<rparr>)"
  using assms
  by (simp add: payment_verified_orders update_order_payment_result sql_param_def)

lemma payment_verified_keeps_paid:
  assumes "orders s k = Some r" and "status r = ''paid''"
  shows "map_option status (orders (snd (payment_verified w (JStr k) pid s)) k) = Some ''paid''"
  using assms
  by (simp add: payment_verified_orders update_order_payment_def sql_param_def)

lemma example_paid_state:
  "example_paid =
     \<lparr>orders = [''order_abc'' \<mapsto>
                 \<lparr>user_name = ''Alice'', user_email = ''alice@x.com'',
                  user_whatsapp = ''+911234567890'',
                  amount = 99, status = ''paid'', payment_id = Some ''pay_1'',
                  created_at = 1700000000, updated_at = 1700000000\<rparr>],
       payments = [],
       emails = [\<lparr>recipient = JStr ''alice@x.com'',
                   template = Payment_confirmed ''Alice'' (JStr ''order_abc'') 99 ''pay_1'',
                   drive_link = default_drive_link, dispatch = Async\<rparr>],
       gateway_calls = [example_call]\<rparr>"
  by (simp add: example_paid_def example_created_state verify_payment_def payment_verified_def
      update_order_payment_def get_order_def sql_param_def send_email_async_def
      expected_signature_def example_verify_request_def example_signature_def
      example_world_def dict_get_def drive_link_of_def Let_def)

text \<open>
  Claim C6.  Two verification requests in sequence with the same valid arguments for
  an order that exists (the signature being the expected digest at both calls, the
  first update not hitting a database fault) are both answered with a success, and
  the stored status of the order is \<open>paid\<close> after the first and after the second.
\<close>

theorem verify_twice:
  assumes "dict_get kvs ''razorpay_order_id'' = JStr oid" and "oid \<noteq> []"
    and "dict_get kvs ''razorpay_payment_id'' = JStr pid" and "pid \<noteq> []"
    and "dict_get kvs ''razorpay_signature'' = JStr sig" and "sig \<noteq> []"
    and "dict_get kvs ''order_id'' = JStr k" and "k \<noteq> []"
    and "razorpay_key_secret w1 = Some secret1"
    and "sig = hmac_sha256_hex w1 secret1 (oid @ ''|'' @ pid)"
    and "razorpay_key_secret w2 = Some secret2"
    and "sig = hmac_sha256_hex w2 secret2 (oid @ ''|'' @ pid)"
    and "orders s k = Some r"
    and "\<not> update_fault w1"
    and "s1 = snd (verify_payment w1 (Body (JObj kvs)) s)"
    and "s2 = snd (verify_payment w2 (Body (JObj kvs)) s1)"
  shows "fst (verify_payment w1 (Body (JObj kvs)) s) = Payment_verified pid (JStr k) \<and>
         fst (verify_payment w2 (Body (JObj kvs)) s1) = Payment_verified pid (JStr k) \<and>
         map_option status (orders s1 k) = Some ''paid'' \<and>
         map_option status (orders s2 k) = Some ''paid''"
proof -
  have t: "truthy (dict_get kvs ''razorpay_signature'')" "truthy (dict_get kvs ''order_id'')"
    using assms(5-8) by simp_all
  have v1: "verify_payment w1 (Body (JObj kvs)) s' = payment_verified w1 (JStr k) pid s'" for s'
    using verify_payment_strings [OF assms(1-4) t assms(9), of s'] assms(5,7,10)
    by (simp add: expected_signature_def)
  have v2: "verify_payment w2 (Body (JObj kvs)) s' = payment_verified w2 (JStr k) pid s'" for s'
    using verify_payment_strings [OF assms(1-4) t assms(11), of s'] assms(5,7,12)
    by (simp add: expected_signature_def)
  have o1: "orders s1 k = Some (r\<lparr>payment_id := Some pid, status := ''paid'',
                   updated_at := current_timestamp w1\<rparr>)"
    using assms(13,14,15) by (simp add: v1 payment_verified_marks_paid)
  have "map_option status (orders s2 k) = Some ''paid''"
    unfolding assms(16) v2 by (rule payment_verified_keeps_paid [OF o1]) simp
  with o1 show ?thesis
    by (simp add: v1 v2 payment_verified_response)
qed

theorem verify_twice_witness:
  "fst (verify_payment example_world
          (example_verify_request ''pay_1'' (example_signature ''pay_1'')) example_created)
     = Payment_verified ''pay_1'' (JStr ''order_abc'') \<and>
   fst (verify_payment example_world
          (example_verify_request ''pay_1'' (example_signature ''pay_1'')) example_paid)
     = Payment_verified ''pay_1'' (JStr ''order_abc'') \<and>
   map_option status (orders example_paid ''order_abc'') = Some ''paid'' \<and>
   map_option status
     (orders (snd (verify_payment example_world
          (example_verify_request ''pay_1'' (example_signature ''pay_1'')) example_paid))
        ''order_abc'') = Some ''paid''"
  using verify_twice [of "[(''razorpay_order_id'', JStr ''order_abc''),
                 (''razorpay_payment_id'', JStr ''pay_1''),
                 (''razorpay_signature'', JStr (example_signature ''pay_1'')),
                 (''order_id'', JStr ''order_abc'')]" "''order_abc''" "''pay_1''"
              "example_signature ''pay_1''" "''order_abc''" example_world "''topsecret''"
              example_world "''topsecret''" example_created
              "\<lparr>user_name = ''Alice'', user_email = ''alice@x.com'',
                  user_whatsapp = ''+911234567890'',
                  amount = 99, status = ''created'', payment_id = None,
                  created_at = 1700000000, updated_at = 1700000000\<rparr>"
              example_paid
              "snd (verify_payment example_world
                 (example_verify_request ''pay_1'' (example_signature ''pay_1'')) example_paid)"]
  by (simp add: dict_get_def example_signature_def example_verify_request_def
      example_paid_def example_world_def example_created_state)

subsection \<open>The life of an order\<close>

lemma create_free_old:
  "orders s k = Some r \<Longrightarrow> orders (snd (create_free w n e wa s)) k = Some r"
  by (auto simp: create_free_result)

lemma create_free_new:
  "orders s k = None \<Longrightarrow> orders (snd (create_free w n e wa s)) k = Some r' \<Longrightarrow>
     status r' = ''created'' \<and> payment_id r' = None"
  by (auto simp: create_free_result split: if_splits)

lemma create_paid_old:
  "orders s k = Some r \<Longrightarrow> orders (snd (create_paid w n e wa a s)) k = Some r"
  by (auto simp: create_paid_result split: option.splits)

lemma create_paid_new:
  "orders s k = None \<Longrightarrow> orders (snd (create_paid w n e wa a s)) k = Some r' \<Longrightarrow>
     status r' = ''created'' \<and> payment_id r' = None"
  by (auto simp: create_paid_result split: option.splits if_splits)

lemma create_order_state:
  assumes "P s" and "\<And>n e wa. P (snd (create_free w n e wa s))"
    and "\<And>n e wa a. P (snd (create_paid w n e wa a s))"
  shows "P (snd (create_order w req s))"
  using assms
  by (simp add: create_order_def split: request.splits sum.splits bool.splits)

lemma create_order_old:
  assumes "orders s k = Some r"
  shows "orders (snd (create_order w req s)) k = Some r"
  by (rule create_order_state [where P = "\<lambda>t. orders t k = Some r"])
    (simp_all add: assms create_free_old create_paid_old)

lemma create_order_new:
  assumes "orders s k = None"
  shows "orders (snd (create_order w req s)) k = Some r' \<longrightarrow>
           status r' = ''created'' \<and> payment_id r' = None"
proof (rule create_order_state [where P = "\<lambda>t. orders t k = Some r' \<longrightarrow>
           status r' = ''created'' \<and> payment_id r' = None"])
  show "orders s k = Some r' \<longrightarrow> status r' = ''created'' \<and> payment_id r' = None"
    using assms by simp
next
  fix n e wa
  show "orders (snd (create_free w n e wa s)) k = Some r' \<longrightarrow>
          status r' = ''created'' \<and> payment_id r' = None"
    using create_free_new [OF assms] by blast
next
  fix n e wa a
  show "orders (snd (create_paid w n e wa a s)) k = Some r' \<longrightarrow>
          status r' = ''created'' \<and> payment_id r' = None"
    using create_paid_new [OF assms] by blast
qed

lemma update_order_payment_old:
  assumes "orders s k = Some r"
  shows "orders (snd (update_order_payment w our pid st s)) k = Some r \<or>
         orders (snd (update_order_payment w our pid st s)) k =
           Some (r\<lparr>payment_id := Some pid, status := st, updated_at := current_timestamp w\<rparr>)"
  using assms by (auto simp: update_order_payment_def split: option.splits)

lemma update_order_payment_none:
  assumes "orders s k = None"
  shows "orders (snd (update_order_payment w our pid st s)) k = None"
  using assms by (auto simp: update_order_payment_def split: option.splits)

lemma verify_payment_cases:
  "(\<exists>our pid. verify_payment w req s = payment_verified w our pid s) \<or>
   snd (verify_payment w req s) = s"
  by (auto simp: verify_payment_def Let_def
        split: request.splits json.splits option.splits)

lemma verify_payment_old:
  assumes "orders s k = Some r"
  shows "orders (snd (verify_payment w req s)) k = Some r \<or>
         (\<exists>pid our. fst (verify_payment w req s) = Payment_verified pid our \<and>
            orders (snd (verify_payment w req s)) k =
              Some (r\<lparr>payment_id := Some pid, status := ''paid'',
                      updated_at := current_timestamp w\<rparr>))"
  using verify_payment_cases [of w req s]
proof (elim disjE exE)
  fix our pid
  assume v: "verify_payment w req s = payment_verified w our pid s"
  from update_order_payment_old [OF assms, of w our pid "''paid''"]
  show ?thesis
    unfolding v payment_verified_orders payment_verified_response by blast
next
  assume "snd (verify_payment w req s) = s"
  with assms show ?thesis by simp
qed

lemma verify_payment_none:
  assumes "orders s k = None"
  shows "orders (snd (verify_payment w req s)) k = None"
  using verify_payment_cases [of w req s]
proof (elim disjE exE)
  fix our pid
  assume v: "verify_payment w req s = payment_verified w our pid s"
  from update_order_payment_none [OF assms, of w our pid "''paid''"]
  show ?thesis
    unfolding v payment_verified_orders .
next
  assume "snd (verify_payment w req s) = s"
  with assms show ?thesis by simp
qed

lemma send_book_orders: "orders (snd (send_book w req s)) = orders s"
  by (auto simp: send_book_def send_email_def Let_def
      split: request.splits json.splits option.splits prod.splits if_splits)

lemma handle_old:
  assumes "orders s k = Some r"
  shows "orders (snd (handle w op s)) k = Some r \<or>
         (\<exists>req pid our. op = VerifyPayment req \<and>
            fst (handle w op s) = Payment_verified pid our \<and>
            orders (snd (handle w op s)) k =
              Some (r\<lparr>payment_id := Some pid, status := ''paid'',
                      updated_at := current_timestamp w\<rparr>))"
proof (cases op)
  case (CreateOrder req)
  with assms show ?thesis by (simp add: create_order_old)
next
  case (VerifyPayment req)
  with verify_payment_old [OF assms, of w req] show ?thesis by auto
next
  case (GetOrder i)
  with assms show ?thesis by (simp add: get_order_details_state)
next
  case (SendBook req)
  with assms show ?thesis by (simp add: send_book_orders)
qed

lemma handle_new:
  assumes "orders s k = None" and "orders (snd (handle w op s)) k = Some r'"
  shows "status r' = ''created'' \<and> payment_id r' = None"
proof (cases op)
  case (CreateOrder req)
  with assms create_order_new [of s k w req r'] show ?thesis by simp
next
  case (VerifyPayment req)
  with assms show ?thesis by (simp add: verify_payment_none)
next
  case (GetOrder i)
  with assms show ?thesis by (simp add: get_order_details_state)
next
  case (SendBook req)
  with assms show ?thesis by (simp add: send_book_orders)
qed

lemma reachable_rows:
  "reachable s \<Longrightarrow> orders s k = Some r \<Longrightarrow>
     (status r = ''created'' \<and> payment_id r = None) \<or>
     (status r = ''paid'' \<and> payment_id r \<noteq> None)"
proof (induction arbitrary: k r rule: reachable.induct)
  case start
  then show ?case by (simp add: init_db_def empty_tables_def)
next
  case (request s w op)
  show ?case
  proof (cases "orders s k")
    case None
    from handle_new [OF None request.prems] show ?thesis by simp
  next
    case (Some r0)
    from handle_old [OF Some, of w op] request.prems
    have "r = r0 \<or> (\<exists>pid. r = r0\<lparr>payment_id := Some pid, status := ''paid'',
                      updated_at := current_timestamp w\<rparr>)"
      by auto
    then show ?thesis
    proof
      assume "r = r0"
      with request.IH [OF Some] show ?thesis by simp
    next
      assume "\<exists>pid. r = r0\<lparr>payment_id := Some pid, status := ''paid'',
                      updated_at := current_timestamp w\<rparr>"
      then show ?thesis by auto
    qed
  qed
qed

lemma example_paid_reachable: "reachable example_paid"
proof -
  have "reachable example_created"
    using reachable.request [OF reachable.start, of example_world
        "CreateOrder (example_create_request ''Alice'' 99)"]
    by (simp add: example_created_def)
  from reachable.request [OF this, of example_world
        "VerifyPayment (example_verify_request ''pay_1'' (example_signature ''pay_1''))"]
  show ?thesis by (simp add: example_paid_def)
qed

text \<open>
  Claim C3, as the code has it.  In every reachable state and for every operation: an
  order that is stored stays stored; a paid order stays paid; \<open>payment_id\<close> is null
  exactly while the status is \<open>created\<close>, before and after the operation; and
  \<open>payment_id\<close> changes only in a verification request that is answered with a
  success, which leaves the order paid with the payment id of that request.  (The
  update has no guard on the current status, so a later successful verification
  naming a paid order writes \<open>payment_id\<close> again.)
\<close>

theorem order_lifecycle:
  assumes "reachable s" and "orders s k = Some r"
  shows "\<exists>r'. orders (snd (handle w op s)) k = Some r' \<and>
           (status r = ''paid'' \<longrightarrow> status r' = ''paid'') \<and>
           ((payment_id r = None) = (status r = ''created'')) \<and>
           ((payment_id r' = None) = (status r' = ''created'')) \<and>
           (payment_id r' \<noteq> payment_id r \<longrightarrow>
              status r' = ''paid'' \<and>
              (\<exists>req pid our. op = VerifyPayment req \<and>
                 fst (handle w op s) = Payment_verified pid our \<and> payment_id r' = Some pid))"
proof -
  have before: "(status r = ''created'' \<and> payment_id r = None) \<or>
     (status r = ''paid'' \<and> payment_id r \<noteq> None)"
    using assms by (rule reachable_rows)
  then have b: "(payment_id r = None) = (status r = ''created'')"
    by auto
  from handle_old [OF assms(2), of w op] show ?thesis
  proof (elim disjE exE conjE)
    assume "orders (snd (handle w op s)) k = Some r"
    with b show ?thesis by simp
  next
    fix req pid our
    assume v: "op = VerifyPayment req"
      and f: "fst (handle w op s) = Payment_verified pid our"
      and o: "orders (snd (handle w op s)) k =
         Some (r\<lparr>payment_id := Some pid, status := ''paid'',
                 updated_at := current_timestamp w\<rparr>)"
    have "\<exists>req pid' our. op = VerifyPayment req \<and>
            fst (handle w op s) = Payment_verified pid' our \<and> Some pid = Some pid'"
      using v f by blast
    with o b show ?thesis by simp
  qed
qed

theorem order_lifecycle_witness:
  "reachable example_paid \<and>
   orders example_paid ''order_abc'' =
     Some \<lparr>user_name = ''Alice'', user_email = ''alice@x.com'',
           user_whatsapp = ''+911234567890'',
           amount = 99, status = ''paid'', payment_id = Some ''pay_1'',
           created_at = 1700000000, updated_at = 1700000000\<rparr> \<and>
   (\<exists>r'. orders (snd (handle example_world
                (VerifyPayment (example_verify_request ''pay_2'' (example_signature ''pay_2'')))
                example_paid)) ''order_abc'' = Some r' \<and>
         status r' = ''paid'' \<and> payment_id r' \<noteq> None)"
proof -
  have r: "reachable example_paid"
    by (rule example_paid_reachable)
  have o: "orders example_paid ''order_abc'' =
     Some \<lparr>user_name = ''Alice'', user_email = ''alice@x.com'',
           user_whatsapp = ''+911234567890'',
           amount = 99, status = ''paid'', payment_id = Some ''pay_1'',
           created_at = 1700000000, updated_at = 1700000000\<rparr>"
    by (simp add: example_paid_state)
  from order_lifecycle [OF r o, of example_world
      "VerifyPayment (example_verify_request ''pay_2'' (example_signature ''pay_2''))"]
  have "\<exists>r'. orders (snd (handle example_world
                (VerifyPayment (example_verify_request ''pay_2'' (example_signature ''pay_2'')))
                example_paid)) ''order_abc'' = Some r' \<and>
         status r' = ''paid'' \<and> payment_id r' \<noteq> None"
    by (elim exE conjE) simp
  with r o show ?thesis by (intro conjI)
qed

text \<open>
  Claim C3 as stated fails in its second half: the order \<open>order_abc\<close>, paid with
  payment \<open>pay_1\<close> in a reachable state, has its \<open>payment_id\<close> overwritten with
  \<open>pay_2\<close> by a second verification request with a valid signature.
\<close>

theorem payment_id_overwritten:
  "reachable example_paid \<and>
   map_option status (orders example_paid ''order_abc'') = Some ''paid'' \<and>
   map_option payment_id (orders example_paid ''order_abc'') = Some (Some ''pay_1'') \<and>
   map_option payment_id
     (orders (snd (handle example_world
                (VerifyPayment (example_verify_request ''pay_2'' (example_signature ''pay_2'')))
                example_paid)) ''order_abc'') = Some (Some ''pay_2'')"
  by (simp add: example_paid_reachable)
    (simp add: example_paid_state verify_payment_def payment_verified_def
      update_order_payment_def get_order_def sql_param_def send_email_async_def
      expected_signature_def example_verify_request_def example_signature_def
      example_world_def dict_get_def Let_def)

end
